theory Spec2Isabelle
  imports Complex_Main
begin

section \<open>Numeric values\<close>

text \<open>
  The program computes with double-precision floats. A value is modelled as a real
  number or one of the three special values \<open>inf\<close>, \<open>-inf\<close> and \<open>nan\<close>. The
  special values follow IEEE 754 as numpy implements it: dividing by zero gives
  \<open>inf\<close>, \<open>-inf\<close> or \<open>nan\<close> (with a warning, no exception), \<open>nan\<close> is
  absorbing, and every comparison with \<open>nan\<close> is false. Zero has no sign: a zero
  divisor counts as \<open>+0.0\<close>, which is what \<open>sigma * sqrt(T)\<close> is for a positive sigma.

  The four basic operations on finite values are exact: their rounding and overflow are
  not modelled. What is stated below about the code is therefore restricted to what does
  not depend on that rounding: identities between syntactically equal computations,
  evaluations at inputs where every intermediate result of the basic operations is a
  binary fraction that float64 represents exactly, and the prices at \<open>T = 0\<close>, which
  only depend on the sign of \<open>log(S/K)\<close>. Overflow and saturation of the library
  functions \<open>np.exp\<close> and \<open>norm.cdf\<close> and the exceptions of Python's own float
  operations are modelled, see below. Statements that need exact arithmetic are made
  about the pricing formulas evaluated over the reals (\<open>exact_call_value\<close>,
  \<open>exact_put_value\<close>), not about the float code.
\<close>

datatype pyfloat = Fin real | PInf | NInf | NaN

fun fneg :: "pyfloat \<Rightarrow> pyfloat" where
  "fneg (Fin a) = Fin (- a)"
| "fneg PInf = NInf"
| "fneg NInf = PInf"
| "fneg NaN = NaN"

fun fadd :: "pyfloat \<Rightarrow> pyfloat \<Rightarrow> pyfloat" where
  "fadd NaN y = NaN"
| "fadd x NaN = NaN"
| "fadd (Fin a) (Fin b) = Fin (a + b)"
| "fadd (Fin a) y = y"
| "fadd x (Fin b) = x"
| "fadd PInf PInf = PInf"
| "fadd NInf NInf = NInf"
| "fadd PInf NInf = NaN"
| "fadd NInf PInf = NaN"

text \<open>The sign of a product or quotient with an infinite operand; a zero factor gives nan.\<close>

definition signed_inf :: "real \<Rightarrow> pyfloat" where
  "signed_inf s = (if 0 < s then PInf else if s < 0 then NInf else NaN)"

fun fsign :: "pyfloat \<Rightarrow> real" where
  "fsign (Fin a) = sgn a"
| "fsign PInf = 1"
| "fsign NInf = - 1"
| "fsign NaN = 0"

fun fmul :: "pyfloat \<Rightarrow> pyfloat \<Rightarrow> pyfloat" where
  "fmul NaN y = NaN"
| "fmul x NaN = NaN"
| "fmul (Fin a) (Fin b) = Fin (a * b)"
| "fmul x y = signed_inf (fsign x * fsign y)"

fun fdiv :: "pyfloat \<Rightarrow> pyfloat \<Rightarrow> pyfloat" where
  "fdiv NaN y = NaN"
| "fdiv x NaN = NaN"
| "fdiv (Fin a) (Fin b) = (if b = 0 then signed_inf a else Fin (a / b))"
| "fdiv (Fin a) y = Fin 0"
| "fdiv x (Fin b) = (if b = 0 then x else signed_inf (fsign x * b))"
| "fdiv x y = NaN"

fun fle :: "pyfloat \<Rightarrow> pyfloat \<Rightarrow> bool" where
  "fle NaN y = False"
| "fle x NaN = False"
| "fle (Fin a) (Fin b) = (a \<le> b)"
| "fle NInf y = True"
| "fle x PInf = True"
| "fle x y = False"

fun flt :: "pyfloat \<Rightarrow> pyfloat \<Rightarrow> bool" where
  "flt NaN y = False"
| "flt x NaN = False"
| "flt (Fin a) (Fin b) = (a < b)"
| "flt PInf y = False"
| "flt x NInf = False"
| "flt x y = True"

instantiation pyfloat :: "{plus, minus, uminus, times, inverse, ord}"
begin

definition plus_pyfloat :: "pyfloat \<Rightarrow> pyfloat \<Rightarrow> pyfloat" where
  "plus_pyfloat x y = fadd x y"

definition uminus_pyfloat :: "pyfloat \<Rightarrow> pyfloat" where
  "uminus_pyfloat x = fneg x"

definition minus_pyfloat :: "pyfloat \<Rightarrow> pyfloat \<Rightarrow> pyfloat" where
  "minus_pyfloat x y = fadd x (fneg y)"

definition times_pyfloat :: "pyfloat \<Rightarrow> pyfloat \<Rightarrow> pyfloat" where
  "times_pyfloat x y = fmul x y"

definition divide_pyfloat :: "pyfloat \<Rightarrow> pyfloat \<Rightarrow> pyfloat" where
  "divide_pyfloat x y = fdiv x y"

definition inverse_pyfloat :: "pyfloat \<Rightarrow> pyfloat" where
  "inverse_pyfloat x = fdiv (Fin 1) x"

definition less_eq_pyfloat :: "pyfloat \<Rightarrow> pyfloat \<Rightarrow> bool" where
  "less_eq_pyfloat x y = fle x y"

definition less_pyfloat :: "pyfloat \<Rightarrow> pyfloat \<Rightarrow> bool" where
  "less_pyfloat x y = flt x y"

instance ..

end

text \<open>
  The float64 grid: a result of magnitude \<open>2 ^ 1024 - 2 ^ 970\<close> or more rounds to
  infinity, a positive result of at most \<open>2 ^ - 1075\<close> (half the least subnormal) rounds
  to zero, and a result within \<open>2 ^ - 54\<close> below one (half the gap under \<open>1.0\<close>)
  rounds to one.
\<close>

definition overflow_threshold :: real where
  "overflow_threshold = 2 ^ 1024 - 2 ^ 970"

definition underflow_threshold :: real where
  "underflow_threshold = 1 / 2 ^ 1075"

definition half_gap_below_one :: real where
  "half_gap_below_one = 1 / 2 ^ 54"

text \<open>
  Exceptions are values. A call returns \<open>Inl e\<close> when it raises \<open>e\<close> and \<open>Inr v\<close>
  when it returns \<open>v\<close>.
\<close>

datatype pyerr =
  NameError | TypeError | ValueError | RuntimeError | ZeroDivisionError | OverflowError

text \<open>
  The arguments of the pricing functions are Python floats: \<open>brentq\<close> passes
  \<open>sigma\<close> as one, and so does a direct call. Two of Python's own float operations
  raise: \<open>S / K\<close> on a zero divisor and \<open>sigma ** 2\<close> on overflow. (With numpy
  scalars as arguments they would give \<open>inf\<close> or \<open>nan\<close> instead.) The results of
  \<open>np.log\<close>, \<open>np.sqrt\<close>, \<open>np.exp\<close> and \<open>norm.cdf\<close> are numpy scalars, so the
  arithmetic on them, the division by \<open>sigma * np.sqrt(T)\<close> included, raises nothing.
\<close>

fun py_div :: "pyfloat \<Rightarrow> pyfloat \<Rightarrow> pyerr + pyfloat" where
  "py_div x (Fin b) = (if b = 0 then Inl ZeroDivisionError else Inr (x / Fin b))"
| "py_div x y = Inr (x / y)"

fun py_sq :: "pyfloat \<Rightarrow> pyerr + pyfloat" where
  "py_sq (Fin a) = (if overflow_threshold \<le> a\<^sup>2 then Inl OverflowError else Inr (Fin (a\<^sup>2)))"
| "py_sq PInf = Inr PInf"
| "py_sq NInf = Inr PInf"
| "py_sq NaN = Inr NaN"

text \<open>\<open>np.log\<close>, \<open>np.sqrt\<close> and \<open>np.exp\<close> on scalars. \<open>np.exp\<close> overflows to
  \<open>inf\<close> (above an argument of about 709.78) and underflows to zero.\<close>

fun np_log :: "pyfloat \<Rightarrow> pyfloat" where
  "np_log (Fin a) = (if 0 < a then Fin (ln a) else if a = 0 then NInf else NaN)"
| "np_log PInf = PInf"
| "np_log NInf = NaN"
| "np_log NaN = NaN"

fun np_sqrt :: "pyfloat \<Rightarrow> pyfloat" where
  "np_sqrt (Fin a) = (if 0 \<le> a then Fin (sqrt a) else NaN)"
| "np_sqrt PInf = PInf"
| "np_sqrt NInf = NaN"
| "np_sqrt NaN = NaN"

fun np_exp :: "pyfloat \<Rightarrow> pyfloat" where
  "np_exp (Fin a) =
     (if overflow_threshold \<le> exp a then PInf
      else if exp a \<le> underflow_threshold then Fin 0
      else Fin (exp a))"
| "np_exp PInf = PInf"
| "np_exp NInf = Fin 0"
| "np_exp NaN = NaN"


section \<open>The standard normal distribution function\<close>

text \<open>
  Modelled from the spec: \<open>N = norm.cdf\<close>, scipy's standard normal cumulative
  distribution function, which the pricing functions call and which is not part of the
  repository. \<open>Phi\<close> is the mathematical function: the antiderivative of the Gaussian
  \<open>exp (- x\<^sup>2 / 2)\<close>, normalised to total mass one.
  \<open>gauss_prim\<close> is the antiderivative that vanishes at 0, given by its (everywhere
  convergent) power series \<open>\<Sum>n. (- 1 / 2) ^ n * x ^ (2 * n + 1) / (n! * (2 * n + 1))\<close>;
  \<open>gauss_half\<close> is its limit at infinity, half the total mass.
  \<open>norm_cdf\<close> is its float64 value as far as the grid decides it: exactly \<open>1.0\<close> once
  \<open>Phi\<close> is within half a gap of one, exactly \<open>0.0\<close> once \<open>Phi\<close> is below half the
  least subnormal.
\<close>

definition gauss_coeff :: "nat \<Rightarrow> real" where
  "gauss_coeff n = (- 1 / 2) ^ n / (fact n * (2 * real n + 1))"

definition gauss_series :: "real \<Rightarrow> real" where
  "gauss_series y = (\<Sum>n. gauss_coeff n * y ^ n)"

definition gauss_prim :: "real \<Rightarrow> real" where
  "gauss_prim x = x * gauss_series (x\<^sup>2)"

definition gauss_half :: real where
  "gauss_half = Sup (range gauss_prim)"

definition Phi :: "real \<Rightarrow> real" where
  "Phi x = (gauss_half + gauss_prim x) / (2 * gauss_half)"

fun norm_cdf :: "pyfloat \<Rightarrow> pyfloat" where
  "norm_cdf (Fin a) =
     (if 1 - Phi a \<le> half_gap_below_one then Fin 1
      else if Phi a \<le> underflow_threshold then Fin 0
      else Fin (Phi a))"
| "norm_cdf PInf = Fin 1"
| "norm_cdf NInf = Fin 0"
| "norm_cdf NaN = NaN"


section \<open>Pricing model\<close>

definition bs_call_no_div ::
  "pyfloat \<Rightarrow> pyfloat \<Rightarrow> pyfloat \<Rightarrow> pyfloat \<Rightarrow> pyfloat \<Rightarrow> pyerr + pyfloat" where
  "bs_call_no_div S K T r sigma =
     (case py_div S K of Inl e \<Rightarrow> Inl e | Inr S_over_K \<Rightarrow>
      case py_sq sigma of Inl e \<Rightarrow> Inl e | Inr sigma_sq \<Rightarrow>
        (let N = norm_cdf;
             d1 = (np_log S_over_K + (r + sigma_sq / Fin 2) * T) / (sigma * np_sqrt T);
             d2 = d1 - sigma * np_sqrt T;
             call_price = S * N d1 - K * np_exp (- r * T) * N d2
         in Inr call_price))"

definition bs_call_div ::
  "pyfloat \<Rightarrow> pyfloat \<Rightarrow> pyfloat \<Rightarrow> pyfloat \<Rightarrow> pyfloat \<Rightarrow> pyfloat \<Rightarrow> pyerr + pyfloat" where
  "bs_call_div S K T r q sigma =
     (case py_div S K of Inl e \<Rightarrow> Inl e | Inr S_over_K \<Rightarrow>
      case py_sq sigma of Inl e \<Rightarrow> Inl e | Inr sigma_sq \<Rightarrow>
        (let N = norm_cdf;
             d1 = (np_log S_over_K + (r - q + sigma_sq / Fin 2) * T) / (sigma * np_sqrt T);
             d2 = d1 - sigma * np_sqrt T;
             call_price = S * np_exp (- q * T) * N d1 - K * np_exp (- r * T) * N d2
         in Inr call_price))"

definition bs_put_no_div ::
  "pyfloat \<Rightarrow> pyfloat \<Rightarrow> pyfloat \<Rightarrow> pyfloat \<Rightarrow> pyfloat \<Rightarrow> pyerr + pyfloat" where
  "bs_put_no_div S K T r sigma =
     (case py_div S K of Inl e \<Rightarrow> Inl e | Inr S_over_K \<Rightarrow>
      case py_sq sigma of Inl e \<Rightarrow> Inl e | Inr sigma_sq \<Rightarrow>
        (let N = norm_cdf;
             d1 = (np_log S_over_K + (r + sigma_sq / Fin 2) * T) / (sigma * np_sqrt T);
             d2 = d1 - sigma * np_sqrt T;
             put_price = K * np_exp (- r * T) * N (- d2) - S * N (- d1)
         in Inr put_price))"

definition bs_put_div ::
  "pyfloat \<Rightarrow> pyfloat \<Rightarrow> pyfloat \<Rightarrow> pyfloat \<Rightarrow> pyfloat \<Rightarrow> pyfloat \<Rightarrow> pyerr + pyfloat" where
  "bs_put_div S K T r q sigma =
     (case py_div S K of Inl e \<Rightarrow> Inl e | Inr S_over_K \<Rightarrow>
      case py_sq sigma of Inl e \<Rightarrow> Inl e | Inr sigma_sq \<Rightarrow>
        (let N = norm_cdf;
             d1 = (np_log S_over_K + (r - q + sigma_sq / Fin 2) * T) / (sigma * np_sqrt T);
             d2 = d1 - sigma * np_sqrt T;
             put_price = K * np_exp (- r * T) * N (- d2) - S * np_exp (- q * T) * N (- d1)
         in Inr put_price))"


section \<open>The pricing formulas in exact arithmetic\<close>

text \<open>
  The expressions of \<open>bs_call_div\<close> and \<open>bs_put_div\<close> (and of the closure
  \<open>objective_function\<close> as it is meant: the call price minus the observed price),
  evaluated in exact real arithmetic, with \<open>Phi\<close> for \<open>norm.cdf\<close>. They are the
  formulas by which the specification states the pricing contract (section 4.1):
  \<open>d1 = (ln(S/K) + (r - q + sigma^2/2) T) / (sigma sqrt T)\<close>, \<open>d2 = d1 - sigma sqrt T\<close>,
  call value \<open>S e^(-qT) Phi(d1) - K e^(-rT) Phi(d2)\<close>, put value
  \<open>K e^(-rT) Phi(-d2) - S e^(-qT) Phi(-d1)\<close>, and the objective of its section 4.2.
  They are what the float code approximates; lemma \<open>bs_div_computes_exact_value\<close>
  below compares the two.
\<close>

definition exact_d1 :: "real \<Rightarrow> real \<Rightarrow> real \<Rightarrow> real \<Rightarrow> real \<Rightarrow> real \<Rightarrow> real" where
  "exact_d1 S K T r q sigma = (ln (S / K) + (r - q + sigma\<^sup>2 / 2) * T) / (sigma * sqrt T)"

definition exact_d2 :: "real \<Rightarrow> real \<Rightarrow> real \<Rightarrow> real \<Rightarrow> real \<Rightarrow> real \<Rightarrow> real" where
  "exact_d2 S K T r q sigma = exact_d1 S K T r q sigma - sigma * sqrt T"

definition exact_call_value :: "real \<Rightarrow> real \<Rightarrow> real \<Rightarrow> real \<Rightarrow> real \<Rightarrow> real \<Rightarrow> real" where
  "exact_call_value S K T r q sigma =
     S * exp (- q * T) * Phi (exact_d1 S K T r q sigma)
     - K * exp (- r * T) * Phi (exact_d2 S K T r q sigma)"

definition exact_put_value :: "real \<Rightarrow> real \<Rightarrow> real \<Rightarrow> real \<Rightarrow> real \<Rightarrow> real \<Rightarrow> real" where
  "exact_put_value S K T r q sigma =
     K * exp (- r * T) * Phi (- exact_d2 S K T r q sigma)
     - S * exp (- q * T) * Phi (- exact_d1 S K T r q sigma)"


text \<open>
  The inputs on which no library function of the code overflows or saturates and no
  Python operation raises, so that the code evaluates the formulas above (with its own
  rounding in place of exact arithmetic).
\<close>

definition in_float_range :: "real \<Rightarrow> bool" where
  "in_float_range x \<longleftrightarrow> underflow_threshold < x \<and> x < overflow_threshold"

definition cdf_unsaturated :: "real \<Rightarrow> bool" where
  "cdf_unsaturated x \<longleftrightarrow> half_gap_below_one < Phi x \<and> half_gap_below_one < 1 - Phi x"

definition ordinary_input :: "real \<Rightarrow> real \<Rightarrow> real \<Rightarrow> real \<Rightarrow> real \<Rightarrow> real \<Rightarrow> bool" where
  "ordinary_input S K T r q sigma \<longleftrightarrow>
     0 < S \<and> 0 < K \<and> 0 < T \<and> 0 < sigma \<and> sigma\<^sup>2 < overflow_threshold \<and>
     in_float_range (exp (- q * T)) \<and> in_float_range (exp (- r * T)) \<and>
     cdf_unsaturated (exact_d1 S K T r q sigma) \<and> cdf_unsaturated (exact_d2 S K T r q sigma)"


section \<open>Implied volatility solver\<close>

text \<open>
  A function name is resolved when the call is executed, in the module's global
  namespace. The namespace maps a name to a function of positional float arguments;
  a call with the wrong number of arguments raises \<open>TypeError\<close>.
\<close>

type_synonym pyfun = "pyfloat list \<Rightarrow> pyerr + pyfloat"

fun def5 ::
  "(pyfloat \<Rightarrow> pyfloat \<Rightarrow> pyfloat \<Rightarrow> pyfloat \<Rightarrow> pyfloat \<Rightarrow> pyerr + pyfloat) \<Rightarrow> pyfun" where
  "def5 f [a, b, c, d, e] = f a b c d e"
| "def5 f args = Inl TypeError"

fun def6 ::
  "(pyfloat \<Rightarrow> pyfloat \<Rightarrow> pyfloat \<Rightarrow> pyfloat \<Rightarrow> pyfloat \<Rightarrow> pyfloat \<Rightarrow> pyerr + pyfloat) \<Rightarrow>
   pyfun" where
  "def6 f [a, b, c, d, e, g] = f a b c d e g"
| "def6 f args = Inl TypeError"

text \<open>
  The pricing functions that the module defines. The other names bound at module level
  (the imports, \<open>implied_volatility\<close> itself, the widgets' values) are not pricing
  functions, and none of them is called \<open>bs_call_price\<close>.
\<close>

definition module_globals :: "string \<rightharpoonup> pyfun" where
  "module_globals =
     [''bs_call_no_div'' \<mapsto> def5 bs_call_no_div,
      ''bs_call_div'' \<mapsto> def6 bs_call_div,
      ''bs_put_no_div'' \<mapsto> def5 bs_put_no_div,
      ''bs_put_div'' \<mapsto> def6 bs_put_div]"

text \<open>
  What a call does besides returning is recorded in a log: the root search being
  started, the objective being evaluated at a point, a pricing function being invoked
  under a name.
\<close>

datatype event = RootSearch | Objective pyfloat | Pricing string

type_synonym outcome = "(pyerr + pyfloat) \<times> event list"

text \<open>
  The closure \<open>objective_function\<close> reads \<open>price\<close>, \<open>S\<close>, \<open>K\<close>, \<open>T\<close>, \<open>r\<close>
  and \<open>q\<close> from the enclosing call and looks \<open>bs_call_price\<close> up in the globals.
\<close>

definition objective_function ::
  "(string \<rightharpoonup> pyfun) \<Rightarrow> pyfloat \<Rightarrow> pyfloat \<Rightarrow> pyfloat \<Rightarrow> pyfloat \<Rightarrow> pyfloat \<Rightarrow> pyfloat \<Rightarrow>
   pyfloat \<Rightarrow> outcome" where
  "objective_function G price S K T r q sigma =
     (case G ''bs_call_price'' of
        None \<Rightarrow> (Inl NameError, [])
      | Some f \<Rightarrow>
          (case f [S, K, T, r, sigma, q] of
             Inl e \<Rightarrow> (Inl e, [Pricing ''bs_call_price''])
           | Inr v \<Rightarrow> (Inr (v - price), [Pricing ''bs_call_price''])))"

text \<open>
  \<open>brentq\<close> is scipy's root finder; it is not part of the repository and is a
  parameter of the model. All that is fixed is how such a routine can use its callback:
  it either finishes, returning a float or raising, or evaluates the callback at a point
  and goes on according to the value. Being a well-founded tree, it terminates (scipy
  bounds the number of iterations). An exception raised by the callback ends the search
  and propagates: the routine has no handler for it.
\<close>

datatype root_finder = Finish "pyerr + pyfloat" | Eval pyfloat "pyfloat \<Rightarrow> root_finder"

primrec run :: "root_finder \<Rightarrow> (pyfloat \<Rightarrow> outcome) \<Rightarrow> outcome" where
  "run (Finish res) f = (res, [])"
| "run (Eval x k) f =
     (case f x of
        (Inl e, tr) \<Rightarrow> (Inl e, Objective x # tr)
      | (Inr y, tr) \<Rightarrow> (case run (k y) f of (res, tr') \<Rightarrow> (res, Objective x # tr @ tr')))"

definition implied_volatility ::
  "(string \<rightharpoonup> pyfun) \<Rightarrow> (pyfloat \<Rightarrow> pyfloat \<Rightarrow> root_finder) \<Rightarrow>
   pyfloat \<Rightarrow> pyfloat \<Rightarrow> pyfloat \<Rightarrow> pyfloat \<Rightarrow> pyfloat \<Rightarrow> pyfloat \<Rightarrow> outcome" where
  "implied_volatility G brentq price S K T r q =
     (if T \<le> Fin 0 \<or> price \<le> Fin 0 then (Inr NaN, [])
      else
        (case run (brentq (Fin (1 / 10 ^ 6)) (Fin 5)) (objective_function G price S K T r q) of
           (Inl ValueError, tr) \<Rightarrow> (Inr NaN, RootSearch # tr)
         | (Inl RuntimeError, tr) \<Rightarrow> (Inr NaN, RootSearch # tr)
         | (Inl e, tr) \<Rightarrow> (Inl e, RootSearch # tr)
         | (Inr implied_vol, tr) \<Rightarrow> (Inr implied_vol, RootSearch # tr)))"

text \<open>
  A root finder that, like \<open>brentq\<close>, starts by evaluating the objective at both ends of
  the bracket and raises \<open>ValueError\<close> when the two values have the same sign. It is
  used to exercise the handler of \<open>implied_volatility\<close>.
\<close>

definition sign_check :: "pyfloat \<Rightarrow> pyfloat \<Rightarrow> root_finder" where
  "sign_check a b =
     Eval a (\<lambda>fa. Eval b (\<lambda>fb.
       if Fin 0 < fa * fb then Finish (Inl ValueError)
       else if fa = Fin 0 then Finish (Inr a)
       else Finish (Inr b)))"


section \<open>Arithmetic on finite values\<close>

lemma fin_plus [simp]: "Fin a + Fin b = Fin (a + b)"
  by (simp add: plus_pyfloat_def)

lemma fin_minus [simp]: "Fin a - Fin b = Fin (a - b)"
  by (simp add: minus_pyfloat_def)

lemma fin_uminus [simp]: "- Fin a = Fin (- a)"
  by (simp add: uminus_pyfloat_def)

lemma fin_times [simp]: "Fin a * Fin b = Fin (a * b)"
  by (simp add: times_pyfloat_def)

lemma fin_divide [simp]: "Fin a / Fin b = (if b = 0 then signed_inf a else Fin (a / b))"
  by (simp add: divide_pyfloat_def)

lemma fin_le [simp]: "Fin a \<le> Fin b \<longleftrightarrow> a \<le> b"
  by (simp add: less_eq_pyfloat_def)

lemma fin_less [simp]: "Fin a < Fin b \<longleftrightarrow> a < b"
  by (simp add: less_pyfloat_def)

lemma nan_le [simp]: "\<not> NaN \<le> x" "\<not> x \<le> NaN"
  by (cases x; simp add: less_eq_pyfloat_def)+

lemma nan_less [simp]: "\<not> NaN < x" "\<not> x < NaN"
  by (cases x; simp add: less_pyfloat_def)+

lemma nan_arith [simp]:
  "NaN + x = NaN" "x + NaN = NaN" "NaN - x = NaN" "x - NaN = NaN"
  "NaN * x = NaN" "x * NaN = NaN" "NaN / x = NaN" "x / NaN = NaN" "- NaN = NaN"
  by (cases x; simp add: plus_pyfloat_def minus_pyfloat_def times_pyfloat_def
        divide_pyfloat_def uminus_pyfloat_def)+


section \<open>The solver\<close>

lemma module_globals_bs_call_price: "module_globals ''bs_call_price'' = None"
  by (simp add: module_globals_def)

lemma objective_function_module:
  "objective_function module_globals price S K T r q sigma = (Inl NameError, [])"
  by (simp add: objective_function_def module_globals_bs_call_price)

lemma objective_function_upd:
  "n \<noteq> ''bs_call_price'' \<Longrightarrow> objective_function (G(n := f)) = objective_function G"
  by (rule ext)+ (simp add: objective_function_def)

text \<open>
  C4. With \<open>T \<le> 0\<close> or \<open>price \<le> 0\<close> the call returns the no-solution value at once:
  the log is empty, so neither a pricing function nor the root search has been invoked,
  whatever the globals and the root finder are.
\<close>

theorem invalid_input_short_circuit:
  "T \<le> Fin 0 \<or> price \<le> Fin 0 \<Longrightarrow>
     implied_volatility G brentq price S K T r q = (Inr NaN, [])"
  by (simp add: implied_volatility_def)

theorem invalid_input_short_circuit_witness:
  "(Fin (- 1 / 100) \<le> Fin 0 \<or> Fin 10 \<le> Fin 0) \<and>
   implied_volatility module_globals sign_check (Fin 10) (Fin 100) (Fin 100) (Fin (- 1 / 100))
     (Fin (5 / 100)) (Fin 0) = (Inr NaN, [])"
  using invalid_input_short_circuit [of "Fin (- 1 / 100)" "Fin 10" module_globals sign_check
      "Fin 100" "Fin 100" "Fin (5 / 100)" "Fin 0"]
  by simp

text \<open>
  C1. The round trip is not recovered. In the scenario of the specification (\<open>S = 100\<close>,
  \<open>K = 100\<close>, \<open>T = 1\<close>, \<open>r = 0.05\<close>, \<open>q = 0\<close>, the call price 10.4506
  of volatility 0.20) the guard is passed, the root search starts, and the first evaluation
  of the objective raises \<open>NameError\<close>: no global is called \<open>bs_call_price\<close>. The
  handler catches \<open>ValueError\<close> and \<open>RuntimeError\<close> only, so the call raises instead of
  returning a volatility near 0.20.
\<close>

theorem round_trip_scenario_raises:
  "implied_volatility module_globals sign_check
     (Fin (104506 / 10000)) (Fin 100) (Fin 100) (Fin 1) (Fin (5 / 100)) (Fin 0)
   = (Inl NameError, [RootSearch, Objective (Fin (1 / 10 ^ 6))])"
  by (simp add: implied_volatility_def objective_function_module sign_check_def)

text \<open>
  C2. Exceptions do propagate. For every input that passes the guard, and every root finder
  whose first step evaluates the objective (as \<open>brentq\<close> does, at the lower end of the
  bracket), \<open>implied_volatility\<close> raises \<open>NameError\<close> to its caller.
\<close>

theorem valid_input_raises_name_error:
  "\<not> (T \<le> Fin 0 \<or> price \<le> Fin 0) \<Longrightarrow> brentq (Fin (1 / 10 ^ 6)) (Fin 5) = Eval x k \<Longrightarrow>
     implied_volatility module_globals brentq price S K T r q
     = (Inl NameError, [RootSearch, Objective x])"
  by (simp add: implied_volatility_def objective_function_module)

theorem valid_input_raises_name_error_witness:
  "\<not> (Fin (1 / 10) \<le> Fin 0 \<or> Fin (1 / 100) \<le> Fin 0) \<and>
   (\<exists>k. sign_check (Fin (1 / 10 ^ 6)) (Fin 5) = Eval (Fin (1 / 10 ^ 6)) k) \<and>
   implied_volatility module_globals sign_check (Fin (1 / 100)) (Fin 100) (Fin 150)
     (Fin (1 / 10)) (Fin (1 / 100)) (Fin 0)
   = (Inl NameError, [RootSearch, Objective (Fin (1 / 10 ^ 6))])"
  using valid_input_raises_name_error [of "Fin (1 / 10)" "Fin (1 / 100)" sign_check
      "Fin (1 / 10 ^ 6)" _ "Fin 100" "Fin 150" "Fin (1 / 100)" "Fin 0"]
  by (simp add: sign_check_def)

text \<open>
  C3. The solver has no option-type parameter, and its objective refers to a call-pricing
  name only: whatever the put-pricing globals are bound to, the outcome is the same, so the
  put formulas are never inverted.
\<close>

theorem solver_ignores_put_pricing:
  "implied_volatility (G(''bs_put_div'' := f, ''bs_put_no_div'' := g)) brentq price S K T r q
   = implied_volatility G brentq price S K T r q"
  by (simp add: implied_volatility_def objective_function_upd)


section \<open>Properties of the normal distribution function\<close>

lemma gauss_coeff_bound: "norm (gauss_coeff n * y ^ n) \<le> inverse (fact n) * (\<bar>y\<bar> / 2) ^ n"
proof -
  have c: "1 \<le> 2 * real n + 1"
    by simp
  have "norm (gauss_coeff n * y ^ n) = (inverse (fact n) * (\<bar>y\<bar> / 2) ^ n) / (2 * real n + 1)"
    by (simp add: gauss_coeff_def abs_mult power_abs power_divide divide_simps)
  also have "\<dots> \<le> (inverse (fact n) * (\<bar>y\<bar> / 2) ^ n) / 1"
    by (rule divide_left_mono [OF c]) simp_all
  finally show ?thesis
    by simp
qed

lemma summable_gauss: "summable (\<lambda>n. gauss_coeff n * y ^ n)"
proof (rule summable_comparison_test')
  show "summable (\<lambda>n. inverse (fact n) * (\<bar>y\<bar> / 2) ^ n)"
    by (rule summable_exp)
  show "\<And>n. 0 \<le> n \<Longrightarrow> norm (gauss_coeff n * y ^ n) \<le> inverse (fact n) * (\<bar>y\<bar> / 2) ^ n"
    by (rule gauss_coeff_bound)
qed

lemma DERIV_gauss_series:
  "DERIV gauss_series y :> (\<Sum>n. diffs gauss_coeff n * y ^ n)"
  unfolding gauss_series_def
  by (rule termdiffs_strong_converges_everywhere) (rule summable_gauss)

lemma gauss_series_ode:
  "gauss_series y + 2 * y * (\<Sum>n. diffs gauss_coeff n * y ^ n) = exp (- y / 2)"
proof -
  have s0: "(\<lambda>n. gauss_coeff n * y ^ n) sums gauss_series y"
    unfolding gauss_series_def by (rule summable_sums [OF summable_gauss])
  have "summable (\<lambda>n. diffs gauss_coeff n * y ^ n)"
    by (rule termdiff_converges_all) (rule summable_gauss)
  then have "(\<lambda>n. of_nat n * gauss_coeff n * y ^ (n - Suc 0)) sums (\<Sum>n. diffs gauss_coeff n * y ^ n)"
    by (rule diffs_equiv)
  then have "(\<lambda>n. (2 * y) * (of_nat n * gauss_coeff n * y ^ (n - Suc 0)))
      sums (2 * y * (\<Sum>n. diffs gauss_coeff n * y ^ n))"
    by (rule sums_mult)
  moreover have "(\<lambda>n. (2 * y) * (of_nat n * gauss_coeff n * y ^ (n - Suc 0)))
      = (\<lambda>n. 2 * real n * gauss_coeff n * y ^ n)"
  proof
    fix n
    show "(2 * y) * (of_nat n * gauss_coeff n * y ^ (n - Suc 0)) = 2 * real n * gauss_coeff n * y ^ n"
      by (cases n) simp_all
  qed
  ultimately have s1: "(\<lambda>n. 2 * real n * gauss_coeff n * y ^ n)
      sums (2 * y * (\<Sum>n. diffs gauss_coeff n * y ^ n))"
    by simp
  have "(\<lambda>n. gauss_coeff n * y ^ n + 2 * real n * gauss_coeff n * y ^ n)
      sums (gauss_series y + 2 * y * (\<Sum>n. diffs gauss_coeff n * y ^ n))"
    by (rule sums_add [OF s0 s1])
  moreover have "(\<lambda>n. gauss_coeff n * y ^ n + 2 * real n * gauss_coeff n * y ^ n)
      = (\<lambda>n. (- y / 2) ^ n /\<^sub>R fact n)"
  proof
    fix n
    have "gauss_coeff n * y ^ n + 2 * real n * gauss_coeff n * y ^ n
        = (2 * real n + 1) * gauss_coeff n * y ^ n"
      by (simp add: algebra_simps)
    also have "(2 * real n + 1) * gauss_coeff n = (- 1 / 2) ^ n / fact n"
      by (simp add: gauss_coeff_def)
    also have "(- 1 / 2) ^ n / fact n * y ^ n = (- y / 2) ^ n /\<^sub>R fact n"
    proof -
      have "(- y / 2) ^ n = ((- 1 / 2) * y) ^ n"
        by simp
      also have "\<dots> = (- 1 / 2) ^ n * y ^ n"
        by (rule power_mult_distrib)
      finally have e: "(- y / 2) ^ n = (- 1 / 2) ^ n * y ^ n" .
      have g: "a / f * b = inverse f * (a * b)" for a b f :: real
        by (simp add: divide_inverse mult_ac)
      show ?thesis
        unfolding e real_scaleR_def by (rule g)
    qed
    finally show "gauss_coeff n * y ^ n + 2 * real n * gauss_coeff n * y ^ n
        = (- y / 2) ^ n /\<^sub>R fact n" .
  qed
  ultimately have "(\<lambda>n. (- y / 2) ^ n /\<^sub>R fact n)
      sums (gauss_series y + 2 * y * (\<Sum>n. diffs gauss_coeff n * y ^ n))"
    by simp
  then show ?thesis
    using exp_converges [of "- y / 2"] by (rule sums_unique2)
qed


lemma DERIV_gauss_prim: "DERIV gauss_prim x :> exp (- x\<^sup>2 / 2)"
proof -
  let ?g' = "\<Sum>n. diffs gauss_coeff n * (x\<^sup>2) ^ n"
  have d1: "DERIV (\<lambda>x. x\<^sup>2) x :> 2 * x"
    by (auto intro!: derivative_eq_intros)
  have d2: "DERIV (\<lambda>x. gauss_series (x\<^sup>2)) x :> ?g' * (2 * x)"
    by (rule DERIV_chain2 [OF DERIV_gauss_series d1])
  have "DERIV (\<lambda>x. x * gauss_series (x\<^sup>2)) x :> x * (?g' * (2 * x)) + 1 * gauss_series (x\<^sup>2)"
    by (rule DERIV_mult' [OF DERIV_ident d2])
  moreover have "x * (?g' * (2 * x)) + 1 * gauss_series (x\<^sup>2) = exp (- x\<^sup>2 / 2)"
    using gauss_series_ode [of "x\<^sup>2"] by (simp add: power2_eq_square mult_ac)
  moreover have "gauss_prim = (\<lambda>x. x * gauss_series (x\<^sup>2))"
    by (rule ext) (simp add: gauss_prim_def)
  ultimately show ?thesis
    by simp
qed

lemma gauss_prim_0 [simp]: "gauss_prim 0 = 0"
  by (simp add: gauss_prim_def)

lemma gauss_prim_minus [simp]: "gauss_prim (- x) = - gauss_prim x"
  by (simp add: gauss_prim_def)

lemma gauss_prim_strict_mono: "x < y \<Longrightarrow> gauss_prim x < gauss_prim y"
  by (rule DERIV_pos_imp_increasing) (use DERIV_gauss_prim in \<open>auto intro!: exI\<close>)

lemma gauss_prim_mono: "x \<le> y \<Longrightarrow> gauss_prim x \<le> gauss_prim y"
  using gauss_prim_strict_mono [of x y] by (cases "x = y") auto


lemma gauss_prim_le_exp: "gauss_prim x \<le> exp (1 / 2)"
proof (cases "0 \<le> x")
  case True
  let ?h = "\<lambda>t. - exp (1 / 2 - t) - gauss_prim t"
  have "?h 0 \<le> ?h x"
  proof (rule DERIV_nonneg_imp_nondecreasing [OF True])
    fix t :: real
    have "DERIV ?h t :> exp (1 / 2 - t) - exp (- t\<^sup>2 / 2)"
      by (auto intro!: derivative_eq_intros DERIV_gauss_prim)
    moreover have "- t\<^sup>2 / 2 \<le> 1 / 2 - t"
    proof -
      have "0 \<le> (t - 1)\<^sup>2"
        by simp
      then show ?thesis
        by (simp add: power2_eq_square algebra_simps)
    qed
    then have "0 \<le> exp (1 / 2 - t) - exp (- t\<^sup>2 / 2)"
      by simp
    ultimately show "\<exists>y. (?h has_real_derivative y) (at t) \<and> 0 \<le> y"
      by blast
  qed
  then have "gauss_prim x \<le> exp (1 / 2) - exp (1 / 2 - x)"
    by simp
  also have "\<dots> \<le> exp (1 / 2)"
    by simp
  finally show ?thesis .
next
  case False
  then have "gauss_prim x \<le> gauss_prim 0"
    by (intro gauss_prim_mono) simp
  also have "\<dots> \<le> exp (1 / 2)"
    by simp
  finally show ?thesis .
qed

lemma bdd_above_gauss_prim: "bdd_above (range gauss_prim)"
  by (rule bdd_aboveI [of _ "exp (1 / 2)"]) (use gauss_prim_le_exp in auto)

lemma gauss_prim_less_half: "gauss_prim x < gauss_half"
proof -
  have "gauss_prim x < gauss_prim (x + 1)"
    by (rule gauss_prim_strict_mono) simp
  also have "\<dots> \<le> gauss_half"
    unfolding gauss_half_def by (rule cSup_upper [OF rangeI bdd_above_gauss_prim])
  finally show ?thesis .
qed

lemma gauss_half_pos: "0 < gauss_half"
  using gauss_prim_less_half [of 0] by simp

lemma gauss_prim_greater: "- gauss_half < gauss_prim x"
  using gauss_prim_less_half [of "- x"] by simp

lemma Phi_minus: "Phi (- x) = 1 - Phi x"
  using gauss_half_pos by (simp add: Phi_def field_simps)

lemma Phi_pos: "0 < Phi x"
  using gauss_half_pos gauss_prim_greater [of x] by (simp add: Phi_def)

lemma Phi_less_1: "Phi x < 1"
  using Phi_pos [of "- x"] by (simp add: Phi_minus)






section \<open>The price as a function of the total volatility\<close>







section \<open>The float64 grid\<close>

lemma overflow_threshold_ge: "2 ^ 1023 \<le> overflow_threshold"
  by (simp add: overflow_threshold_def)

lemma underflow_threshold_le: "underflow_threshold \<le> 1 / 2 ^ 1075"
  by (simp add: underflow_threshold_def)

lemma exp_le_three_power: "exp (real n) \<le> 3 ^ n"
proof -
  have "exp 1 ^ n \<le> (3::real) ^ n"
    by (rule power_mono) (simp_all add: exp_le)
  then show ?thesis
    by (simp add: exp_of_nat_mult [symmetric])
qed

lemma in_float_range_exp:
  assumes "- 600 \<le> a" "a \<le> 600"
  shows "in_float_range (exp a)"
proof -
  have "exp a \<le> exp (real 600)"
    using assms by simp
  also have "\<dots> \<le> 3 ^ 600"
    by (rule exp_le_three_power)
  also have "\<dots> < (2::real) ^ 1023"
    by simp
  finally have up: "exp a < overflow_threshold"
    using overflow_threshold_ge by simp
  have "exp (- a) \<le> exp (real 600)"
    using assms by simp
  also have "\<dots> \<le> 3 ^ 600"
    by (rule exp_le_three_power)
  also have "\<dots> < (2::real) ^ 1075"
    by simp
  finally have "1 / 2 ^ 1075 < 1 / exp (- a)"
    by (simp add: field_simps)
  then have "underflow_threshold < exp a"
    using underflow_threshold_le by (simp add: exp_minus field_simps)
  with up show ?thesis
    by (simp add: in_float_range_def)
qed

lemma np_exp_in_range: "in_float_range (exp a) \<Longrightarrow> np_exp (Fin a) = Fin (exp a)"
  by (simp add: in_float_range_def)

lemma np_exp_0 [simp]: "np_exp (Fin 0) = Fin 1"
  using np_exp_in_range [OF in_float_range_exp [of 0]] by simp




section \<open>Saturation of the normal distribution function\<close>

lemma gauss_half_ge: "exp (- 1 / 2) \<le> gauss_half"
proof -
  let ?h = "\<lambda>t. gauss_prim t - exp (- 1 / 2) * t"
  have "?h 0 \<le> ?h 1"
  proof (rule DERIV_nonneg_imp_nondecreasing [of 0 1])
    show "(0::real) \<le> 1"
      by simp
  next
    fix t :: real
    assume t: "0 \<le> t" "t \<le> 1"
    have "DERIV ?h t :> exp (- t\<^sup>2 / 2) - exp (- 1 / 2)"
      by (auto intro!: derivative_eq_intros DERIV_gauss_prim)
    moreover have "t\<^sup>2 \<le> 1"
      using t by (simp add: power_le_one)
    then have "0 \<le> exp (- t\<^sup>2 / 2) - exp (- 1 / 2)"
      by simp
    ultimately show "\<exists>y. (?h has_real_derivative y) (at t) \<and> 0 \<le> y"
      by blast
  qed
  then have "exp (- 1 / 2) \<le> gauss_prim 1"
    by simp
  also have "\<dots> \<le> gauss_half"
    using gauss_prim_less_half [of 1] by simp
  finally show ?thesis .
qed







section \<open>The pricing functions in float arithmetic\<close>

declare np_exp.simps(1) [simp del] norm_cdf.simps(1) [simp del] py_sq.simps(1) [simp del]


lemma inf_times_fin [simp]:
  "PInf * Fin a = signed_inf a" "Fin a * PInf = signed_inf a"
  by (simp_all add: times_pyfloat_def signed_inf_def sgn_real_def)

lemma inf_minus_fin [simp]: "PInf - Fin a = PInf" "NInf - Fin a = NInf" "Fin a - PInf = NInf"
  by (simp_all add: minus_pyfloat_def)

lemma uminus_inf [simp]: "- PInf = NInf" "- NInf = PInf"
  by (simp_all add: uminus_pyfloat_def)

text \<open>
  C5. With \<open>q = 0\<close> the dividend-aware call and put functions return what the
  no-dividend call and put functions return, an exception included. This holds for all
  finite arguments, the positive ones in particular: with \<open>q = 0\<close> the two variants
  perform the same operations on the same operands.
\<close>

theorem dividend_free_agreement:
  "bs_call_div (Fin S) (Fin K) (Fin T) (Fin r) (Fin 0) (Fin sigma)
     = bs_call_no_div (Fin S) (Fin K) (Fin T) (Fin r) (Fin sigma) \<and>
   bs_put_div (Fin S) (Fin K) (Fin T) (Fin r) (Fin 0) (Fin sigma)
     = bs_put_no_div (Fin S) (Fin K) (Fin T) (Fin r) (Fin sigma)"
  by (simp add: bs_call_div_def bs_call_no_div_def bs_put_div_def bs_put_no_div_def Let_def
      split: sum.splits)





section \<open>The code and the pricing contract\<close>




lemma underflow_less_half_gap: "underflow_threshold < half_gap_below_one"
proof -
  have "(2::real) ^ 54 < 2 ^ 1075"
    by (rule power_strict_increasing) simp_all
  then show ?thesis
    by (simp add: underflow_threshold_def half_gap_below_one_def field_simps)
qed

lemma norm_cdf_unsaturated:
  assumes "cdf_unsaturated x"
  shows "norm_cdf (Fin x) = Fin (Phi x)" "norm_cdf (Fin (- x)) = Fin (Phi (- x))"
  using assms underflow_less_half_gap
  by (simp_all add: cdf_unsaturated_def norm_cdf.simps(1) Phi_minus)

lemma bs_div_computes_exact_value:
  assumes "ordinary_input S K T r q sigma"
  shows "bs_call_div (Fin S) (Fin K) (Fin T) (Fin r) (Fin q) (Fin sigma)
           = Inr (Fin (exact_call_value S K T r q sigma))"
    and "bs_put_div (Fin S) (Fin K) (Fin T) (Fin r) (Fin q) (Fin sigma)
           = Inr (Fin (exact_put_value S K T r q sigma))"
proof -
  have pos: "0 < S" "0 < K" "0 < T" "0 < sigma"
    and sq: "py_sq (Fin sigma) = Inr (Fin (sigma\<^sup>2))"
    and ex: "np_exp (Fin (- (q * T))) = Fin (exp (- (q * T)))"
      "np_exp (Fin (- (r * T))) = Fin (exp (- (r * T)))"
    and u1: "cdf_unsaturated (exact_d1 S K T r q sigma)"
    and u2: "cdf_unsaturated (exact_d2 S K T r q sigma)"
    using assms by (simp_all add: ordinary_input_def py_sq.simps(1) np_exp_in_range)
  have d1: "Fin ((ln (S / K) + (r - q + sigma\<^sup>2 / 2) * T) / (sigma * sqrt T))
      = Fin (exact_d1 S K T r q sigma)"
    by (simp add: exact_d1_def)
  have d2: "Fin (exact_d1 S K T r q sigma - sigma * sqrt T) = Fin (exact_d2 S K T r q sigma)"
    by (simp add: exact_d2_def)
  show "bs_call_div (Fin S) (Fin K) (Fin T) (Fin r) (Fin q) (Fin sigma)
           = Inr (Fin (exact_call_value S K T r q sigma))"
    using pos
    by (simp add: bs_call_div_def Let_def sq ex d1 d2 norm_cdf_unsaturated [OF u1]
        norm_cdf_unsaturated [OF u2] exact_call_value_def)
  show "bs_put_div (Fin S) (Fin K) (Fin T) (Fin r) (Fin q) (Fin sigma)
           = Inr (Fin (exact_put_value S K T r q sigma))"
    using pos
    by (simp add: bs_put_div_def Let_def sq ex d1 d2 norm_cdf_unsaturated [OF u1]
        norm_cdf_unsaturated [OF u2] exact_put_value_def)
qed

lemma gauss_prim_le_self:
  assumes "0 \<le> x"
  shows "gauss_prim x \<le> x"
proof -
  let ?h = "\<lambda>t. t - gauss_prim t"
  have "?h 0 \<le> ?h x"
  proof (rule DERIV_nonneg_imp_nondecreasing [OF assms])
    fix t :: real
    have "DERIV ?h t :> 1 - exp (- t\<^sup>2 / 2)"
      by (auto intro!: derivative_eq_intros DERIV_gauss_prim)
    moreover have "0 \<le> 1 - exp (- t\<^sup>2 / 2)"
      by simp
    ultimately show "\<exists>y. (?h has_real_derivative y) (at t) \<and> 0 \<le> y"
      by blast
  qed
  then show ?thesis
    by simp
qed

lemma gauss_half_le: "gauss_half \<le> 3"
proof -
  have "gauss_half \<le> exp (1 / 2)"
    unfolding gauss_half_def
    by (rule cSup_least) (use gauss_prim_le_exp in auto)
  also have "\<dots> \<le> exp 1"
    by simp
  also have "\<dots> \<le> 3"
    by (rule exp_le)
  finally show ?thesis .
qed

lemma cdf_unsaturated_small:
  assumes "0 \<le> x" "x \<le> 3 / 8"
  shows "cdf_unsaturated x"
proof -
  have h: "1 / 2 \<le> gauss_half"
  proof -
    have "1 + (- 1 / 2) \<le> exp (- 1 / 2 :: real)"
      by (rule exp_ge_add_one_self)
    then show ?thesis
      using gauss_half_ge by simp
  qed
  have "gauss_prim 0 \<le> gauss_prim x"
    using assms(1) by (rule gauss_prim_mono)
  then have "1 / 2 \<le> Phi x"
    using gauss_half_pos by (simp add: Phi_def field_simps)
  moreover have "1 / 48 \<le> 1 - Phi x"
  proof -
    have "1 / 8 \<le> gauss_half - gauss_prim x"
      using h gauss_prim_le_self [OF assms(1)] assms(2) by simp
    then have "(1 / 8) / (2 * 3) \<le> (gauss_half - gauss_prim x) / (2 * gauss_half)"
      using gauss_half_pos gauss_half_le by (intro frac_le) simp_all
    moreover have "1 - Phi x = (gauss_half - gauss_prim x) / (2 * gauss_half)"
      using gauss_half_pos by (simp add: Phi_def field_simps)
    ultimately show ?thesis
      by simp
  qed
  moreover have "half_gap_below_one < 1 / 48"
    by (simp add: half_gap_below_one_def)
  ultimately show ?thesis
    by (simp add: cdf_unsaturated_def)
qed

lemma ordinary_input_example: "ordinary_input 100 100 1 (1 / 16) 0 (1 / 4)"
proof -
  have d1: "exact_d1 100 100 1 (1 / 16) 0 (1 / 4) = 3 / 8"
    by (simp add: exact_d1_def power2_eq_square)
  have d2: "exact_d2 100 100 1 (1 / 16) 0 (1 / 4) = 1 / 8"
    by (simp add: exact_d2_def d1)
  have "((1::real) / 4)\<^sup>2 < 2 ^ 1023"
    by (simp add: power2_eq_square)
  then have "((1::real) / 4)\<^sup>2 < overflow_threshold"
    using overflow_threshold_ge by simp
  moreover have "in_float_range (exp (- 0 * 1))" "in_float_range (exp (- (1 / 16) * 1))"
    by (rule in_float_range_exp; simp)+
  moreover have "cdf_unsaturated (3 / 8)" "cdf_unsaturated (1 / 8)"
    by (rule cdf_unsaturated_small; simp)+
  ultimately show ?thesis
    by (simp add: ordinary_input_def d1 d2)
qed



section \<open>The pricing contract in exact arithmetic\<close>










section \<open>Failures of the root search\<close>

text \<open>
  What the handler of \<open>implied_volatility\<close> does with the outcome of the root
  search: \<open>ValueError\<close> and \<open>RuntimeError\<close> become a returned \<open>nan\<close>, any other
  exception propagates, a returned float is returned unchanged.
\<close>

lemma handler_outcome:
  "fst (implied_volatility G brentq price S K T r q) =
     (if T \<le> Fin 0 \<or> price \<le> Fin 0 then Inr NaN
      else case fst (run (brentq (Fin (1 / 10 ^ 6)) (Fin 5))
                      (objective_function G price S K T r q)) of
             Inl ValueError \<Rightarrow> Inr NaN
           | Inl RuntimeError \<Rightarrow> Inr NaN
           | Inl e \<Rightarrow> Inl e
           | Inr implied_vol \<Rightarrow> Inr implied_vol)"
  by (auto simp add: implied_volatility_def split: prod.splits sum.splits pyerr.splits)

text \<open>
  C10. A failed search is not reported as \<open>nan\<close> by the module as it is. A call
  price of 150 on a spot of 100 is above every Black-Scholes call value, so the search
  has no solution; the guard is passed, and the first evaluation of the objective raises
  \<open>NameError\<close>, which the handler does not catch. The caller gets an exception, not
  \<open>nan\<close>.
\<close>

theorem unsolvable_quote_raises:
  "implied_volatility module_globals sign_check
     (Fin 150) (Fin 100) (Fin 100) (Fin 1) (Fin (1 / 16)) (Fin 0)
   = (Inl NameError, [RootSearch, Objective (Fin (1 / 10 ^ 6))]) \<and>
   fst (implied_volatility module_globals sign_check
     (Fin 150) (Fin 100) (Fin 100) (Fin 1) (Fin (1 / 16)) (Fin 0)) \<noteq> Inr NaN"
  by (simp add: implied_volatility_def objective_function_module sign_check_def)

end
